theory Spec2Isabelle
  imports Complex_Main
begin

section \<open>Data model of \<^verbatim>\<open>main.cpp\<close>\<close>

text \<open>
  The C++ types \<^verbatim>\<open>float\<close> and \<^verbatim>\<open>double\<close> are modelled by \<^typ>\<open>real\<close>: arithmetic is
  exact, there is no rounding, no infinity and no NaN. The C++ type \<^verbatim>\<open>int\<close> is modelled
  by \<^typ>\<open>int\<close>. In the collision test, where the 32-bit arithmetic of the source can
  overflow on coordinates that a circle or a rectangle may hold, every \<^verbatim>\<open>int\<close> operation
  is followed by the wrap-around \<open>int32\<close> of two's complement arithmetic (what the
  compiled program computes; the C++ standard leaves signed overflow undefined). The
  conversion of an \<^verbatim>\<open>int\<close> to a \<^verbatim>\<open>float\<close> is \<^term>\<open>real_of_int\<close>; the conversion of a
  \<^verbatim>\<open>float\<close> to an \<^verbatim>\<open>int\<close> discards the fractional part (truncation toward zero).
\<close>

definition SCREEN_WIDTH :: int where "SCREEN_WIDTH = 1280"
definition SCREEN_HEIGHT :: int where "SCREEN_HEIGHT = 960"

definition TILE_WIDTH :: int where "TILE_WIDTH = 80"
definition TILE_HEIGHT :: int where "TILE_HEIGHT = 80"
definition TOTAL_TILES :: nat where "TOTAL_TILES = 192"
definition TOTAL_TILE_SPRITES :: int where "TOTAL_TILE_SPRITES = 12"

definition TILE_CENTER :: int where "TILE_CENTER = 3"
definition TILE_TOPLEFT :: int where "TILE_TOPLEFT = 11"

definition DOT_WIDTH :: int where "DOT_WIDTH = 20"

text \<open>The value of a 32-bit \<^verbatim>\<open>int\<close> operation whose exact result is \<open>k\<close>.\<close>

definition int32 :: "int \<Rightarrow> int" where
  "int32 k = (k + 2147483648) mod 4294967296 - 2147483648"

text \<open>\<^verbatim>\<open>int(f)\<close> and the implicit conversion of a \<^verbatim>\<open>float\<close> argument to an \<^verbatim>\<open>int\<close> parameter.\<close>

definition float_to_int :: "real \<Rightarrow> int" where
  "float_to_int v = (if 0 \<le> v then \<lfloor>v\<rfloor> else \<lceil>v\<rceil>)"

text \<open>\<^verbatim>\<open>struct Circle { float x, y; float r; }\<close>\<close>

record Circle =
  circle_x :: real
  circle_y :: real
  circle_r :: real

text \<open>\<^verbatim>\<open>SDL_Rect\<close>: four \<^verbatim>\<open>int\<close> fields.\<close>

record SDL_Rect =
  rect_x :: int
  rect_y :: int
  rect_w :: int
  rect_h :: int

text \<open>\<^verbatim>\<open>class Tile\<close>: the collision box and the tile type.\<close>

record Tile =
  mBox :: SDL_Rect
  mType :: int

definition Tile_ctor :: "int \<Rightarrow> int \<Rightarrow> int \<Rightarrow> Tile" where
  "Tile_ctor x y tileType =
     \<lparr>mBox = \<lparr>rect_x = x, rect_y = y, rect_w = TILE_WIDTH, rect_h = TILE_HEIGHT\<rparr>,
      mType = tileType\<rparr>"

definition getType :: "Tile \<Rightarrow> int" where
  "getType t = mType t"

definition getBox :: "Tile \<Rightarrow> SDL_Rect" where
  "getBox t = mBox t"

section \<open>Circle against rectangle\<close>

text \<open>
  \<^verbatim>\<open>double distanceSquared( int x1, int y1, int x2, int y2 )\<close>: the parameters are
  \<^verbatim>\<open>int\<close>, the differences, the squares and their sum are computed in 32-bit \<^verbatim>\<open>int\<close>, and
  the result is converted to \<^verbatim>\<open>double\<close>.
\<close>

definition distanceSquared :: "int \<Rightarrow> int \<Rightarrow> int \<Rightarrow> int \<Rightarrow> real" where
  "distanceSquared x1 y1 x2 y2 =
     (let deltaX = int32 (x2 - x1);
          deltaY = int32 (y2 - y1)
      in real_of_int (int32 (int32 (deltaX * deltaX) + int32 (deltaY * deltaY))))"

text \<open>
  \<^verbatim>\<open>bool checkCollision( Circle& a, SDL_Rect b )\<close>. The closest point \<^verbatim>\<open>cX, cY\<close> is a
  pair of \<^verbatim>\<open>float\<close>s; the sums \<^verbatim>\<open>b.x + b.w\<close> and \<^verbatim>\<open>b.y + b.h\<close> are \<^verbatim>\<open>int\<close> sums; the
  call of \<^verbatim>\<open>distanceSquared\<close> converts the four \<^verbatim>\<open>float\<close> arguments to \<^verbatim>\<open>int\<close>. The
  product \<^verbatim>\<open>a.r * a.r\<close> is the exact product of the radius with itself.
\<close>

definition checkCollision :: "Circle \<Rightarrow> SDL_Rect \<Rightarrow> bool" where
  "checkCollision a b =
     (let cX = (if circle_x a < real_of_int (rect_x b) then real_of_int (rect_x b)
                else if circle_x a > real_of_int (int32 (rect_x b + rect_w b))
                     then real_of_int (int32 (rect_x b + rect_w b))
                else circle_x a);
          cY = (if circle_y a < real_of_int (rect_y b) then real_of_int (rect_y b)
                else if circle_y a > real_of_int (int32 (rect_y b + rect_h b))
                     then real_of_int (int32 (rect_y b + rect_h b))
                else circle_y a)
      in if distanceSquared (float_to_int (circle_x a)) (float_to_int (circle_y a))
              (float_to_int cX) (float_to_int cY) < circle_r a * circle_r a
         then True
         else False)"






section \<open>The wall query\<close>

text \<open>
  \<^verbatim>\<open>bool touchesWall( Circle& circle, Tile* tiles[] )\<close>. The array holds
  \<^verbatim>\<open>TOTAL_TILES\<close> tiles and is modelled by the list of its tiles in index order; the
  loop returns at the first wall tile that the circle collides with.
\<close>

fun touchesWall :: "Circle \<Rightarrow> Tile list \<Rightarrow> bool" where
  "touchesWall circle [] = False"
| "touchesWall circle (t # tiles) =
     (if getType t \<ge> TILE_CENTER \<and> getType t \<le> TILE_TOPLEFT
      then (if checkCollision circle (getBox t) then True else touchesWall circle tiles)
      else touchesWall circle tiles)"

section \<open>Loading the tile map\<close>

text \<open>
  \<^verbatim>\<open>bool setTiles( Tile* tiles[] )\<close> reads the map file with \<^verbatim>\<open>map >> tileType\<close>. The
  file is modelled by \<open>None\<close> when it cannot be opened and otherwise by the list of the
  integers that the extraction operator reads from it, in order: the end of the list is
  the point where the stream fails (end of file, or a token that is not an integer).
  The function returns \<^verbatim>\<open>false\<close> after printing one of three messages; the model returns
  the matching error, and on success the tiles written to the array, in index order.
\<close>

datatype load_error = UnableToLoadMapFile | UnexpectedEndOfFile | InvalidTileType nat

function setTiles_loop ::
  "nat \<Rightarrow> int \<Rightarrow> int \<Rightarrow> int list \<Rightarrow> Tile list \<Rightarrow> load_error + Tile list" where
  "setTiles_loop i x y codes tiles =
     (if i < TOTAL_TILES then
        (case codes of
           [] \<Rightarrow> Inl UnexpectedEndOfFile
         | tileType # rest \<Rightarrow>
             if tileType \<ge> 0 \<and> tileType < TOTAL_TILE_SPRITES then
               (let tiles' = tiles @ [Tile_ctor x y tileType];
                    x' = x + TILE_WIDTH
                in if x' \<ge> SCREEN_WIDTH
                   then setTiles_loop (Suc i) 0 (y + TILE_HEIGHT) rest tiles'
                   else setTiles_loop (Suc i) x' y rest tiles')
             else Inl (InvalidTileType i))
      else Inr tiles)"
  by pat_completeness auto
termination
  by (relation "measure (\<lambda>(i, x, y, codes, tiles). TOTAL_TILES - i)") auto

declare setTiles_loop.simps [simp del]

definition setTiles :: "int list option \<Rightarrow> load_error + Tile list" where
  "setTiles file =
     (case file of
        None \<Rightarrow> Inl UnableToLoadMapFile
      | Some codes \<Rightarrow> setTiles_loop 0 0 0 codes [])"

section \<open>The dot\<close>

text \<open>\<^verbatim>\<open>class Dot\<close>: position, velocity, the four stored mouse coordinates, the collider.\<close>

record Dot =
  mPosX :: real
  mPosY :: real
  mVelX :: real
  mVelY :: real
  mouseX_down :: int
  mouseY_down :: int
  mouseX_up :: int
  mouseY_up :: int
  mCollider :: Circle

text \<open>\<^verbatim>\<open>void Dot::shiftColliders()\<close>: \<^verbatim>\<open>mCollider.x = int(mPosX); mCollider.y = int(mPosY);\<close>\<close>

definition shiftColliders :: "Dot \<Rightarrow> Dot" where
  "shiftColliders d =
     d\<lparr>mCollider := (mCollider d)
          \<lparr>circle_x := real_of_int (float_to_int (mPosX d)),
           circle_y := real_of_int (float_to_int (mPosY d))\<rparr>\<rparr>"

text \<open>
  \<^verbatim>\<open>Dot::Dot( int x, int y )\<close>. The constructor assigns the position, the collider and
  the velocity; every member it does not assign keeps the indeterminate content of the
  storage the object is built in. The first argument is that storage.
\<close>

definition Dot_ctor :: "Dot \<Rightarrow> int \<Rightarrow> int \<Rightarrow> Dot" where
  "Dot_ctor storage x y =
     shiftColliders
       (storage\<lparr>mPosX := real_of_int x,
                mPosY := real_of_int y,
                mCollider := \<lparr>circle_x = real_of_int x, circle_y = real_of_int y,
                              circle_r = real_of_int (DOT_WIDTH div 2)\<rparr>,
                mVelX := 0,
                mVelY := 0\<rparr>)"

text \<open>
  \<^verbatim>\<open>void Dot::handleEvent( SDL_Event& e )\<close> looks at the event type and, for the two
  mouse button events, at \<^verbatim>\<open>e.button.x\<close> and \<^verbatim>\<open>e.button.y\<close>.
\<close>

datatype SDL_Event = SDL_MOUSEBUTTONDOWN int int | SDL_MOUSEBUTTONUP int int | SDL_OTHER

definition handleEvent :: "SDL_Event \<Rightarrow> Dot \<Rightarrow> Dot" where
  "handleEvent e d =
     (if mVelX d = 0 \<and> mVelY d = 0 then
        (case e of
           SDL_MOUSEBUTTONDOWN bx by \<Rightarrow> d\<lparr>mouseX_down := bx, mouseY_down := by\<rparr>
         | SDL_MOUSEBUTTONUP bx by \<Rightarrow>
             (let d' = d\<lparr>mouseX_up := bx, mouseY_up := by\<rparr>;
                  changeX = real_of_int (mouseX_down d' - mouseX_up d');
                  changeY = real_of_int (mouseY_down d' - mouseY_up d')
              in d'\<lparr>mVelX := mVelX d' + changeX * 2, mVelY := mVelY d' + changeY * 2\<rparr>)
         | SDL_OTHER \<Rightarrow> d)
      else d)"

section \<open>The movement step\<close>

text \<open>\<^verbatim>\<open>mPosX += (mVelX * timeStep); mVelX = mVelX * 0.99;\<close> and the same for the other axis.\<close>

definition integrateX :: "real \<Rightarrow> Dot \<Rightarrow> Dot" where
  "integrateX timeStep d =
     d\<lparr>mPosX := mPosX d + mVelX d * timeStep, mVelX := mVelX d * 0.99\<rparr>"

definition integrateY :: "real \<Rightarrow> Dot \<Rightarrow> Dot" where
  "integrateY timeStep d =
     d\<lparr>mPosY := mPosY d + mVelY d * timeStep, mVelY := mVelY d * 0.99\<rparr>"

text \<open>The \<^verbatim>\<open>if / else if / else if\<close> chain of each axis; \<open>fooX\<close> and \<open>fooY\<close> are the saved positions.\<close>

definition resolveX :: "real \<Rightarrow> Tile list \<Rightarrow> Dot \<Rightarrow> Dot" where
  "resolveX fooX tiles d =
     (if mPosX d < real_of_int (DOT_WIDTH div 2)
      then d\<lparr>mPosX := real_of_int (DOT_WIDTH div 2), mVelX := - mVelX d\<rparr>
      else if mPosX d > real_of_int (SCREEN_WIDTH - (DOT_WIDTH div 2))
      then d\<lparr>mPosX := real_of_int (SCREEN_WIDTH - (DOT_WIDTH div 2)), mVelX := - mVelX d\<rparr>
      else if touchesWall (mCollider d) tiles
      then d\<lparr>mPosX := fooX, mVelX := - mVelX d\<rparr>
      else d)"

definition resolveY :: "real \<Rightarrow> Tile list \<Rightarrow> Dot \<Rightarrow> Dot" where
  "resolveY fooY tiles d =
     (if mPosY d < real_of_int (DOT_WIDTH div 2)
      then d\<lparr>mPosY := real_of_int (DOT_WIDTH div 2), mVelY := - mVelY d\<rparr>
      else if mPosY d > real_of_int (SCREEN_HEIGHT - (DOT_WIDTH div 2))
      then d\<lparr>mPosY := real_of_int (SCREEN_HEIGHT - (DOT_WIDTH div 2)), mVelY := - mVelY d\<rparr>
      else if touchesWall (mCollider d) tiles
      then d\<lparr>mPosY := fooY, mVelY := - mVelY d\<rparr>
      else d)"

text \<open>One axis of the step: integrate, shift the collider, resolve, shift the collider.\<close>

definition stepX :: "Tile list \<Rightarrow> real \<Rightarrow> real \<Rightarrow> Dot \<Rightarrow> Dot" where
  "stepX tiles timeStep fooX d =
     shiftColliders (resolveX fooX tiles (shiftColliders (integrateX timeStep d)))"

definition stepY :: "Tile list \<Rightarrow> real \<Rightarrow> real \<Rightarrow> Dot \<Rightarrow> Dot" where
  "stepY tiles timeStep fooY d =
     shiftColliders (resolveY fooY tiles (shiftColliders (integrateY timeStep d)))"

text \<open>The last statement of the step: both velocities are cleared when both are small.\<close>

definition settle :: "Dot \<Rightarrow> Dot" where
  "settle d =
     (if mVelX d < 20 \<and> mVelX d > - 20 \<and> mVelY d < 20 \<and> mVelY d > - 20
      then d\<lparr>mVelX := 0, mVelY := 0\<rparr>
      else d)"

text \<open>
  \<^verbatim>\<open>void Dot::move( Tile *tiles[], float timeStep )\<close>. Both positions are saved on
  entry; the two lines written to \<^verbatim>\<open>std::cout\<close> are not part of the model.
\<close>

definition move :: "Tile list \<Rightarrow> real \<Rightarrow> Dot \<Rightarrow> Dot" where
  "move tiles timeStep d =
     (let fooX = mPosX d;
          fooY = mPosY d
      in settle (stepY tiles timeStep fooY (stepX tiles timeStep fooX d)))"

section \<open>Runs of the main loop\<close>

text \<open>
  The main loop calls \<^verbatim>\<open>dot.handleEvent\<close> for every polled event and \<^verbatim>\<open>dot.move\<close> once
  per frame. A run is a list of these calls, applied from left to right.
\<close>

datatype call = HandleEvent SDL_Event | Move "Tile list" real

fun apply_call :: "call \<Rightarrow> Dot \<Rightarrow> Dot" where
  "apply_call (HandleEvent e) d = handleEvent e d"
| "apply_call (Move tiles timeStep) d = move tiles timeStep d"

fun run :: "call list \<Rightarrow> Dot \<Rightarrow> Dot" where
  "run [] d = d"
| "run (c # cs) d = run cs (apply_call c d)"

text \<open>The agent is at rest when both velocity components are exactly zero.\<close>

definition atRest :: "Dot \<Rightarrow> bool" where
  "atRest d = (mVelX d = 0 \<and> mVelY d = 0)"

section \<open>Notions used to state the properties\<close>

text \<open>The state of the step after both axes are resolved, before the last statement.\<close>

definition axesResolved :: "Tile list \<Rightarrow> real \<Rightarrow> Dot \<Rightarrow> Dot" where
  "axesResolved tiles timeStep d =
     stepY tiles timeStep (mPosY d) (stepX tiles timeStep (mPosX d) d)"

text \<open>One of the three branches of an axis fires: a boundary or a wall tile.\<close>

definition hitsX :: "Tile list \<Rightarrow> Dot \<Rightarrow> bool" where
  "hitsX tiles d =
     (mPosX d < real_of_int (DOT_WIDTH div 2)
      \<or> mPosX d > real_of_int (SCREEN_WIDTH - (DOT_WIDTH div 2))
      \<or> touchesWall (mCollider d) tiles)"

definition hitsY :: "Tile list \<Rightarrow> Dot \<Rightarrow> bool" where
  "hitsY tiles d =
     (mPosY d < real_of_int (DOT_WIDTH div 2)
      \<or> mPosY d > real_of_int (SCREEN_HEIGHT - (DOT_WIDTH div 2))
      \<or> touchesWall (mCollider d) tiles)"

text \<open>The collider's centre is the position with the fractional parts discarded.\<close>

definition synced :: "Dot \<Rightarrow> bool" where
  "synced d =
     (circle_x (mCollider d) = real_of_int (float_to_int (mPosX d))
      \<and> circle_y (mCollider d) = real_of_int (float_to_int (mPosY d)))"

text \<open>Calls of the main loop that are mouse button events, and those that are presses.\<close>

fun is_press :: "call \<Rightarrow> bool" where
  "is_press (HandleEvent (SDL_MOUSEBUTTONDOWN bx by)) = True"
| "is_press c = False"

fun is_mouse :: "call \<Rightarrow> bool" where
  "is_mouse (HandleEvent (SDL_MOUSEBUTTONDOWN bx by)) = True"
| "is_mouse (HandleEvent (SDL_MOUSEBUTTONUP bx by)) = True"
| "is_mouse c = False"

text \<open>No press of the run is handled while the agent is at rest.\<close>

fun no_press_recorded :: "call list \<Rightarrow> Dot \<Rightarrow> bool" where
  "no_press_recorded [] d = True"
| "no_press_recorded (c # cs) d =
     (\<not> (is_press c \<and> atRest d) \<and> no_press_recorded cs (apply_call c d))"

text \<open>The tile that the loader builds at index \<open>i\<close> from the code \<open>c\<close>, and the accepted codes.\<close>

definition tile_at :: "nat \<Rightarrow> int \<Rightarrow> Tile" where
  "tile_at i c = Tile_ctor (80 * int (i mod 16)) (80 * int (i div 16)) c"

definition valid_code :: "int \<Rightarrow> bool" where
  "valid_code c = (0 \<le> c \<and> c < 12)"

section \<open>Concrete maps and agents\<close>

text \<open>
  Two maps of 192 tiles in row-major order: one without any wall tile, one whose only
  wall tile is tile 16, the first tile of the second row, covering \<open>[0, 80] \<times> [80, 160]\<close>.
\<close>

definition open_map :: "Tile list" where
  "open_map = map (\<lambda>i. Tile_ctor (80 * (int i mod 16)) (80 * (int i div 16)) 0) [0..<192]"

definition wall_map :: "Tile list" where
  "wall_map = map (\<lambda>i. Tile_ctor (80 * (int i mod 16)) (80 * (int i div 16))
                         (if i = 16 then 3 else 0)) [0..<192]"

text \<open>The codes of the map with the single wall tile.\<close>

definition wall_codes :: "int list" where
  "wall_codes = map (\<lambda>i. if i = 16 then 3 else 0) [0..<192]"

text \<open>Storage for an agent: all zero, or with some earlier content in the press fields.\<close>

definition blank :: Dot where
  "blank = \<lparr>mPosX = 0, mPosY = 0, mVelX = 0, mVelY = 0, mouseX_down = 0, mouseY_down = 0,
            mouseX_up = 0, mouseY_up = 0,
            mCollider = \<lparr>circle_x = 0, circle_y = 0, circle_r = 0\<rparr>\<rparr>"

definition used_storage :: Dot where
  "used_storage = blank\<lparr>mouseX_down := 7, mouseY_down := 9\<rparr>"

text \<open>An agent at \<open>(100, 100)\<close> with velocity \<open>(15, -15)\<close>.\<close>

definition drift_dot :: Dot where
  "drift_dot = (Dot_ctor blank 100 100)\<lparr>mVelX := 15, mVelY := - 15\<rparr>"

text \<open>
  Agents built by the constructor and one drag gesture: press, then release. The
  gesture gives the velocity twice the difference of press and release.
\<close>

definition bounce_dot :: Dot where
  "bounce_dot = handleEvent (SDL_MOUSEBUTTONUP 20 0)
                  (handleEvent (SDL_MOUSEBUTTONDOWN 0 0) (Dot_ctor blank 91 120))"

definition rise_dot :: Dot where
  "rise_dot = handleEvent (SDL_MOUSEBUTTONUP 0 20)
                (handleEvent (SDL_MOUSEBUTTONDOWN 0 0) (Dot_ctor blank 40 171))"


definition gesture_dot :: Dot where
  "gesture_dot = handleEvent (SDL_MOUSEBUTTONUP 50 50)
                   (handleEvent (SDL_MOUSEBUTTONDOWN 60 50) (Dot_ctor blank 100 100))"

definition fast_dot :: Dot where
  "fast_dot = handleEvent (SDL_MOUSEBUTTONUP 0 0)
                (handleEvent (SDL_MOUSEBUTTONDOWN 20 5) (Dot_ctor blank 100 100))"

text \<open>
  The agent as \<^verbatim>\<open>main\<close> constructs it, at \<open>(10, 10)\<close>, dragged so that its velocity is
  \<open>(0, 16)\<close>; and the calls that produce it.
\<close>

definition creep_dot :: Dot where
  "creep_dot = handleEvent (SDL_MOUSEBUTTONUP 0 0)
                 (handleEvent (SDL_MOUSEBUTTONDOWN 0 8) (Dot_ctor blank 10 10))"

definition creep_run :: "call list" where
  "creep_run = [HandleEvent (SDL_MOUSEBUTTONDOWN 0 8), HandleEvent (SDL_MOUSEBUTTONUP 0 0)]"


text \<open>
  A run after a recorded press: the release that ends the gesture, a second press while
  the agent is moving, and one movement step.
\<close>

definition stale_run :: "call list" where
  "stale_run = [HandleEvent (SDL_MOUSEBUTTONUP 50 50), HandleEvent (SDL_MOUSEBUTTONDOWN 0 0),
                Move open_map 1]"

section \<open>Properties of the collision test\<close>

lemma float_to_int_of_int [simp]: "float_to_int (real_of_int k) = k"
  by (simp add: float_to_int_def)



lemma int32_numeral [simp]:
  "int32 0 = 0" "int32 1 = 1" "int32 (- 1) = - 1" "int32 (numeral n) = (numeral n + 2147483648) mod 4294967296 - 2147483648"
  "int32 (- numeral n) = (- numeral n + 2147483648) mod 4294967296 - 2147483648"
  by (simp_all add: int32_def)






section \<open>Properties of the movement step and of the event handler\<close>

lemma shiftColliders_fields [simp]:
  "mPosX (shiftColliders d) = mPosX d"
  "mPosY (shiftColliders d) = mPosY d"
  "mVelX (shiftColliders d) = mVelX d"
  "mVelY (shiftColliders d) = mVelY d"
  "mouseX_down (shiftColliders d) = mouseX_down d"
  "mouseY_down (shiftColliders d) = mouseY_down d"
  "mouseX_up (shiftColliders d) = mouseX_up d"
  "mouseY_up (shiftColliders d) = mouseY_up d"
  by (simp_all add: shiftColliders_def)

lemma shiftColliders_collider [simp]:
  "circle_x (mCollider (shiftColliders d)) = real_of_int (float_to_int (mPosX d))"
  "circle_y (mCollider (shiftColliders d)) = real_of_int (float_to_int (mPosY d))"
  "circle_r (mCollider (shiftColliders d)) = circle_r (mCollider d)"
  by (simp_all add: shiftColliders_def)

lemma integrateX_fields [simp]:
  "mPosX (integrateX dt d) = mPosX d + mVelX d * dt"
  "mVelX (integrateX dt d) = mVelX d * 0.99"
  "mPosY (integrateX dt d) = mPosY d"
  "mVelY (integrateX dt d) = mVelY d"
  "mouseX_down (integrateX dt d) = mouseX_down d"
  "mouseY_down (integrateX dt d) = mouseY_down d"
  "mouseX_up (integrateX dt d) = mouseX_up d"
  "mouseY_up (integrateX dt d) = mouseY_up d"
  "circle_r (mCollider (integrateX dt d)) = circle_r (mCollider d)"
  by (simp_all add: integrateX_def)

lemma integrateY_fields [simp]:
  "mPosY (integrateY dt d) = mPosY d + mVelY d * dt"
  "mVelY (integrateY dt d) = mVelY d * 0.99"
  "mPosX (integrateY dt d) = mPosX d"
  "mVelX (integrateY dt d) = mVelX d"
  "mouseX_down (integrateY dt d) = mouseX_down d"
  "mouseY_down (integrateY dt d) = mouseY_down d"
  "mouseX_up (integrateY dt d) = mouseX_up d"
  "mouseY_up (integrateY dt d) = mouseY_up d"
  "circle_r (mCollider (integrateY dt d)) = circle_r (mCollider d)"
  by (simp_all add: integrateY_def)

lemma resolveX_other [simp]:
  "mPosY (resolveX foo tiles d) = mPosY d"
  "mVelY (resolveX foo tiles d) = mVelY d"
  "mouseX_down (resolveX foo tiles d) = mouseX_down d"
  "mouseY_down (resolveX foo tiles d) = mouseY_down d"
  "mouseX_up (resolveX foo tiles d) = mouseX_up d"
  "mouseY_up (resolveX foo tiles d) = mouseY_up d"
  "circle_r (mCollider (resolveX foo tiles d)) = circle_r (mCollider d)"
  by (simp_all add: resolveX_def)

lemma resolveY_other [simp]:
  "mPosX (resolveY foo tiles d) = mPosX d"
  "mVelX (resolveY foo tiles d) = mVelX d"
  "mouseX_down (resolveY foo tiles d) = mouseX_down d"
  "mouseY_down (resolveY foo tiles d) = mouseY_down d"
  "mouseX_up (resolveY foo tiles d) = mouseX_up d"
  "mouseY_up (resolveY foo tiles d) = mouseY_up d"
  "circle_r (mCollider (resolveY foo tiles d)) = circle_r (mCollider d)"
  by (simp_all add: resolveY_def)

lemma resolveX_pos:
  "mPosX (resolveX foo tiles d) =
     (if mPosX d < 10 then 10 else if mPosX d > 1270 then 1270
      else if touchesWall (mCollider d) tiles then foo else mPosX d)"
  by (simp add: resolveX_def DOT_WIDTH_def SCREEN_WIDTH_def)

lemma resolveX_vel:
  "mVelX (resolveX foo tiles d) =
     (if mPosX d < 10 \<or> mPosX d > 1270 \<or> touchesWall (mCollider d) tiles
      then - mVelX d else mVelX d)"
  by (simp add: resolveX_def DOT_WIDTH_def SCREEN_WIDTH_def)

lemma resolveY_pos:
  "mPosY (resolveY foo tiles d) =
     (if mPosY d < 10 then 10 else if mPosY d > 950 then 950
      else if touchesWall (mCollider d) tiles then foo else mPosY d)"
  by (simp add: resolveY_def DOT_WIDTH_def SCREEN_HEIGHT_def)

lemma resolveY_vel:
  "mVelY (resolveY foo tiles d) =
     (if mPosY d < 10 \<or> mPosY d > 950 \<or> touchesWall (mCollider d) tiles
      then - mVelY d else mVelY d)"
  by (simp add: resolveY_def DOT_WIDTH_def SCREEN_HEIGHT_def)

lemma stepX_other [simp]:
  "mPosY (stepX tiles dt foo d) = mPosY d"
  "mVelY (stepX tiles dt foo d) = mVelY d"
  "mouseX_down (stepX tiles dt foo d) = mouseX_down d"
  "mouseY_down (stepX tiles dt foo d) = mouseY_down d"
  "mouseX_up (stepX tiles dt foo d) = mouseX_up d"
  "mouseY_up (stepX tiles dt foo d) = mouseY_up d"
  "circle_r (mCollider (stepX tiles dt foo d)) = circle_r (mCollider d)"
  by (simp_all add: stepX_def)

lemma stepY_other [simp]:
  "mPosX (stepY tiles dt foo d) = mPosX d"
  "mVelX (stepY tiles dt foo d) = mVelX d"
  "mouseX_down (stepY tiles dt foo d) = mouseX_down d"
  "mouseY_down (stepY tiles dt foo d) = mouseY_down d"
  "mouseX_up (stepY tiles dt foo d) = mouseX_up d"
  "mouseY_up (stepY tiles dt foo d) = mouseY_up d"
  "circle_r (mCollider (stepY tiles dt foo d)) = circle_r (mCollider d)"
  by (simp_all add: stepY_def)

lemma stepX_pos:
  "mPosX (stepX tiles dt foo d) =
     (if mPosX d + mVelX d * dt < 10 then 10
      else if mPosX d + mVelX d * dt > 1270 then 1270
      else if touchesWall (mCollider (shiftColliders (integrateX dt d))) tiles then foo
      else mPosX d + mVelX d * dt)"
  by (simp add: stepX_def resolveX_pos)

lemma stepX_vel:
  "mVelX (stepX tiles dt foo d) =
     (if mPosX d + mVelX d * dt < 10 \<or> mPosX d + mVelX d * dt > 1270
         \<or> touchesWall (mCollider (shiftColliders (integrateX dt d))) tiles
      then - (mVelX d * 0.99) else mVelX d * 0.99)"
  by (simp add: stepX_def resolveX_vel)

lemma stepY_pos:
  "mPosY (stepY tiles dt foo d) =
     (if mPosY d + mVelY d * dt < 10 then 10
      else if mPosY d + mVelY d * dt > 950 then 950
      else if touchesWall (mCollider (shiftColliders (integrateY dt d))) tiles then foo
      else mPosY d + mVelY d * dt)"
  by (simp add: stepY_def resolveY_pos)

lemma stepY_vel:
  "mVelY (stepY tiles dt foo d) =
     (if mPosY d + mVelY d * dt < 10 \<or> mPosY d + mVelY d * dt > 950
         \<or> touchesWall (mCollider (shiftColliders (integrateY dt d))) tiles
      then - (mVelY d * 0.99) else mVelY d * 0.99)"
  by (simp add: stepY_def resolveY_vel)

lemma settle_fields [simp]:
  "mPosX (settle d) = mPosX d"
  "mPosY (settle d) = mPosY d"
  "mouseX_down (settle d) = mouseX_down d"
  "mouseY_down (settle d) = mouseY_down d"
  "mouseX_up (settle d) = mouseX_up d"
  "mouseY_up (settle d) = mouseY_up d"
  "mCollider (settle d) = mCollider d"
  by (simp_all add: settle_def)

lemma settle_vel:
  "mVelX (settle d) = (if \<bar>mVelX d\<bar> < 20 \<and> \<bar>mVelY d\<bar> < 20 then 0 else mVelX d)"
  "mVelY (settle d) = (if \<bar>mVelX d\<bar> < 20 \<and> \<bar>mVelY d\<bar> < 20 then 0 else mVelY d)"
  by (auto simp add: settle_def)

lemma touchesWall_iff:
  "touchesWall c tiles \<longleftrightarrow>
     (\<exists>t \<in> set tiles. TILE_CENTER \<le> getType t \<and> getType t \<le> TILE_TOPLEFT
        \<and> checkCollision c (getBox t))"
  by (induction tiles) auto

lemma touchesWall_open_map [simp]: "\<not> touchesWall c open_map"
  by (auto simp add: touchesWall_iff open_map_def getType_def Tile_ctor_def TILE_CENTER_def)

lemma move_axesResolved: "move tiles dt d = settle (axesResolved tiles dt d)"
  by (simp add: move_def axesResolved_def Let_def)

lemma hitsX_iff:
  "hitsX tiles d \<longleftrightarrow> mPosX d < 10 \<or> mPosX d > 1270 \<or> touchesWall (mCollider d) tiles"
  by (simp add: hitsX_def DOT_WIDTH_def SCREEN_WIDTH_def)

lemma hitsY_iff:
  "hitsY tiles d \<longleftrightarrow> mPosY d < 10 \<or> mPosY d > 950 \<or> touchesWall (mCollider d) tiles"
  by (simp add: hitsY_def DOT_WIDTH_def SCREEN_HEIGHT_def)

lemma axesResolved_vel:
  "mVelX (axesResolved tiles dt d) =
     (if hitsX tiles (shiftColliders (integrateX dt d))
      then - (mVelX d * 0.99) else mVelX d * 0.99)"
  "mVelY (axesResolved tiles dt d) =
     (if hitsY tiles (shiftColliders (integrateY dt (stepX tiles dt (mPosX d) d)))
      then - (mVelY d * 0.99) else mVelY d * 0.99)"
  by (simp_all add: axesResolved_def stepX_vel stepY_vel hitsX_iff hitsY_iff)

lemma axesResolved_speed:
  "\<bar>mVelX (axesResolved tiles dt d)\<bar> = \<bar>mVelX d * 0.99\<bar>"
  "\<bar>mVelY (axesResolved tiles dt d)\<bar> = \<bar>mVelY d * 0.99\<bar>"
  by (simp_all add: axesResolved_vel)

lemma move_vel:
  "mVelX (move tiles dt d) =
     (if \<bar>mVelX (axesResolved tiles dt d)\<bar> < 20 \<and> \<bar>mVelY (axesResolved tiles dt d)\<bar> < 20
      then 0 else mVelX (axesResolved tiles dt d))"
  "mVelY (move tiles dt d) =
     (if \<bar>mVelX (axesResolved tiles dt d)\<bar> < 20 \<and> \<bar>mVelY (axesResolved tiles dt d)\<bar> < 20
      then 0 else mVelY (axesResolved tiles dt d))"
  by (simp_all add: move_axesResolved settle_vel)

text \<open>
  C2: at the end of the step, after both axes are resolved, both velocity components
  are set to 0 if both are strictly below 20 in magnitude (each compared on its own),
  and both are kept otherwise; after the two axes each component is the damped one,
  negated where a boundary or a wall was hit. An agent that enters the step with
  velocity \<open>(15, -15)\<close> and meets no boundary and no wall has velocity \<open>(14.85, -14.85)\<close>
  after the two axes and \<open>(0, 0)\<close> at the end.
\<close>

theorem C2_settle:
  "mVelX (move tiles dt d) =
     (if \<bar>mVelX (axesResolved tiles dt d)\<bar> < 20 \<and> \<bar>mVelY (axesResolved tiles dt d)\<bar> < 20
      then 0 else mVelX (axesResolved tiles dt d))
   \<and> mVelY (move tiles dt d) =
     (if \<bar>mVelX (axesResolved tiles dt d)\<bar> < 20 \<and> \<bar>mVelY (axesResolved tiles dt d)\<bar> < 20
      then 0 else mVelY (axesResolved tiles dt d))
   \<and> mVelX (axesResolved tiles dt d) =
     (if hitsX tiles (shiftColliders (integrateX dt d))
      then - (mVelX d * 0.99) else mVelX d * 0.99)
   \<and> mVelY (axesResolved tiles dt d) =
     (if hitsY tiles (shiftColliders (integrateY dt (stepX tiles dt (mPosX d) d)))
      then - (mVelY d * 0.99) else mVelY d * 0.99)
   \<and> (mVelX d = 15 \<and> mVelY d = - 15
        \<and> \<not> hitsX tiles (shiftColliders (integrateX dt d))
        \<and> \<not> hitsY tiles (shiftColliders (integrateY dt (stepX tiles dt (mPosX d) d)))
      \<longrightarrow> mVelX (axesResolved tiles dt d) = 14.85
          \<and> mVelY (axesResolved tiles dt d) = - 14.85
          \<and> mVelX (move tiles dt d) = 0 \<and> mVelY (move tiles dt d) = 0)"
proof -
  have inst: "mVelX (axesResolved tiles dt d) = 14.85
          \<and> mVelY (axesResolved tiles dt d) = - 14.85
          \<and> mVelX (move tiles dt d) = 0 \<and> mVelY (move tiles dt d) = 0"
    if a: "mVelX d = 15 \<and> mVelY d = - 15
        \<and> \<not> hitsX tiles (shiftColliders (integrateX dt d))
        \<and> \<not> hitsY tiles (shiftColliders (integrateY dt (stepX tiles dt (mPosX d) d)))"
  proof -
    from a have x: "mVelX (axesResolved tiles dt d) = 14.85"
      by (simp add: axesResolved_vel)
    from a have y: "mVelY (axesResolved tiles dt d) = - 14.85"
      by (simp add: axesResolved_vel)
    show ?thesis
      by (simp add: move_vel x y)
  qed
  note move_vel [of tiles dt d] axesResolved_vel [of tiles dt d]
  with inst show ?thesis
    by blast
qed

lemma drift_fields:
  "mPosX drift_dot = 100" "mPosY drift_dot = 100" "mVelX drift_dot = 15" "mVelY drift_dot = - 15"
  by (simp_all add: drift_dot_def Dot_ctor_def)

lemma fast_fields:
  "mPosX fast_dot = 100" "mPosY fast_dot = 100" "mVelX fast_dot = 40" "mVelY fast_dot = 10"
  by (simp_all add: fast_dot_def Dot_ctor_def handleEvent_def Let_def)

text \<open>
  The agent at \<open>(100, 100)\<close> with velocity \<open>(15, -15)\<close> on the map without walls, with a
  step of one second, is stopped; the agent with velocity \<open>(40, 10)\<close> keeps \<open>(39.6, 9.9)\<close>,
  although one component is below 20.
\<close>

theorem C2_settle_witness:
  "mVelX drift_dot = 15 \<and> mVelY drift_dot = - 15
   \<and> \<not> hitsX open_map (shiftColliders (integrateX 1 drift_dot))
   \<and> \<not> hitsY open_map (shiftColliders (integrateY 1 (stepX open_map 1 (mPosX drift_dot) drift_dot)))
   \<and> mVelX (axesResolved open_map 1 drift_dot) = 14.85
   \<and> mVelY (axesResolved open_map 1 drift_dot) = - 14.85
   \<and> mVelX (move open_map 1 drift_dot) = 0 \<and> mVelY (move open_map 1 drift_dot) = 0
   \<and> mVelX (move open_map 1 fast_dot) = 39.6 \<and> mVelY (move open_map 1 fast_dot) = 9.9"
proof -
  have h: "mVelX drift_dot = 15 \<and> mVelY drift_dot = - 15
   \<and> \<not> hitsX open_map (shiftColliders (integrateX 1 drift_dot))
   \<and> \<not> hitsY open_map (shiftColliders (integrateY 1 (stepX open_map 1 (mPosX drift_dot) drift_dot)))"
    by (simp add: hitsX_iff hitsY_iff drift_fields)
  have k: "\<not> hitsX open_map (shiftColliders (integrateX 1 fast_dot))
   \<and> \<not> hitsY open_map (shiftColliders (integrateY 1 (stepX open_map 1 (mPosX fast_dot) fast_dot)))"
    by (simp add: hitsX_iff hitsY_iff fast_fields)
  from C2_settle [of open_map 1 drift_dot] h
  have a: "mVelX (axesResolved open_map 1 drift_dot) = 14.85
   \<and> mVelY (axesResolved open_map 1 drift_dot) = - 14.85
   \<and> mVelX (move open_map 1 drift_dot) = 0 \<and> mVelY (move open_map 1 drift_dot) = 0"
    by blast
  from C2_settle [of open_map 1 fast_dot] k
  have b: "mVelX (move open_map 1 fast_dot) = 39.6 \<and> mVelY (move open_map 1 fast_dot) = 9.9"
    by (simp add: fast_fields)
  from h a b show ?thesis by blast
qed

lemma touchesWall_wall_map:
  "touchesWall c wall_map
     = checkCollision c \<lparr>rect_x = 0, rect_y = 80, rect_w = 80, rect_h = 80\<rparr>"
proof -
  have "touchesWall c wall_map \<longleftrightarrow>
          (\<exists>i \<in> {0..<192::nat}. i = 16 \<and> checkCollision c
              (getBox (Tile_ctor (80 * (int i mod 16)) (80 * (int i div 16)) 3)))"
    unfolding touchesWall_iff wall_map_def
    by (auto simp add: getType_def Tile_ctor_def TILE_CENTER_def TILE_TOPLEFT_def)
  also have "\<dots> \<longleftrightarrow> checkCollision c \<lparr>rect_x = 0, rect_y = 80, rect_w = 80, rect_h = 80\<rparr>"
    by (simp add: getBox_def Tile_ctor_def TILE_WIDTH_def TILE_HEIGHT_def)
  finally show ?thesis .
qed

text \<open>
  C3, amended: on an axis where neither boundary branch fires and the collider touches a
  wall tile after integration, the axis's position is put back to the value saved before
  integration, and keeps it to the end of the step; the damped velocity of that axis is
  negated, and this negated damped value is the axis's velocity at the end of the step
  unless both damped components are below 20 in magnitude, where the step ends with
  velocity 0.
\<close>

theorem C3_wall_revert:
  "(\<not> mPosX (shiftColliders (integrateX dt d)) < 10
      \<and> \<not> mPosX (shiftColliders (integrateX dt d)) > 1270
      \<and> touchesWall (mCollider (shiftColliders (integrateX dt d))) tiles
    \<longrightarrow> mPosX (stepX tiles dt (mPosX d) d) = mPosX d
        \<and> mVelX (stepX tiles dt (mPosX d) d) = - (mVelX d * 0.99)
        \<and> mPosX (move tiles dt d) = mPosX d
        \<and> mVelX (move tiles dt d) =
            (if \<bar>mVelX d * 0.99\<bar> < 20 \<and> \<bar>mVelY d * 0.99\<bar> < 20 then 0
             else - (mVelX d * 0.99)))
   \<and> (\<not> mPosY (shiftColliders (integrateY dt (stepX tiles dt (mPosX d) d))) < 10
      \<and> \<not> mPosY (shiftColliders (integrateY dt (stepX tiles dt (mPosX d) d))) > 950
      \<and> touchesWall (mCollider (shiftColliders (integrateY dt (stepX tiles dt (mPosX d) d))))
            tiles
    \<longrightarrow> mPosY (axesResolved tiles dt d) = mPosY d
        \<and> mVelY (axesResolved tiles dt d) = - (mVelY d * 0.99)
        \<and> mPosY (move tiles dt d) = mPosY d
        \<and> mVelY (move tiles dt d) =
            (if \<bar>mVelX d * 0.99\<bar> < 20 \<and> \<bar>mVelY d * 0.99\<bar> < 20 then 0
             else - (mVelY d * 0.99)))"
proof (intro conjI impI)
  assume h: "\<not> mPosX (shiftColliders (integrateX dt d)) < 10
      \<and> \<not> mPosX (shiftColliders (integrateX dt d)) > 1270
      \<and> touchesWall (mCollider (shiftColliders (integrateX dt d))) tiles"
  then show "mPosX (stepX tiles dt (mPosX d) d) = mPosX d"
    and v: "mVelX (stepX tiles dt (mPosX d) d) = - (mVelX d * 0.99)"
    and "mPosX (move tiles dt d) = mPosX d"
    by (simp_all add: move_axesResolved axesResolved_def stepX_pos stepX_vel)
  from v have "mVelX (axesResolved tiles dt d) = - (mVelX d * 0.99)"
    by (simp add: axesResolved_def)
  then show "mVelX (move tiles dt d) =
            (if \<bar>mVelX d * 0.99\<bar> < 20 \<and> \<bar>mVelY d * 0.99\<bar> < 20 then 0
             else - (mVelX d * 0.99))"
    unfolding move_vel axesResolved_speed by simp
next
  assume h: "\<not> mPosY (shiftColliders (integrateY dt (stepX tiles dt (mPosX d) d))) < 10
      \<and> \<not> mPosY (shiftColliders (integrateY dt (stepX tiles dt (mPosX d) d))) > 950
      \<and> touchesWall (mCollider (shiftColliders (integrateY dt (stepX tiles dt (mPosX d) d))))
            tiles"
  then show "mPosY (axesResolved tiles dt d) = mPosY d"
    and v: "mVelY (axesResolved tiles dt d) = - (mVelY d * 0.99)"
    and "mPosY (move tiles dt d) = mPosY d"
    by (simp_all add: move_axesResolved axesResolved_def stepY_pos stepY_vel)
  from v show "mVelY (move tiles dt d) =
            (if \<bar>mVelX d * 0.99\<bar> < 20 \<and> \<bar>mVelY d * 0.99\<bar> < 20 then 0
             else - (mVelY d * 0.99))"
    unfolding move_vel axesResolved_speed by simp
qed

lemma mCollider_shiftColliders:
  "mCollider (shiftColliders d) =
     \<lparr>circle_x = real_of_int (float_to_int (mPosX d)),
      circle_y = real_of_int (float_to_int (mPosY d)),
      circle_r = circle_r (mCollider d)\<rparr>"
  by (simp add: shiftColliders_def)

lemma ctor_radius [simp]: "circle_r (mCollider (Dot_ctor storage x y)) = 10"
  by (simp add: Dot_ctor_def shiftColliders_def DOT_WIDTH_def)

lemma handleEvent_radius [simp]:
  "circle_r (mCollider (handleEvent e d)) = circle_r (mCollider d)"
  by (simp add: handleEvent_def Let_def split: SDL_Event.splits)

lemma bounce_fields:
  "mPosX bounce_dot = 91" "mPosY bounce_dot = 120" "mVelX bounce_dot = - 40" "mVelY bounce_dot = 0"
  by (simp_all add: bounce_dot_def Dot_ctor_def handleEvent_def Let_def)

lemma bounce_radius: "circle_r (mCollider bounce_dot) = 10"
  by (simp add: bounce_dot_def)

lemma float_to_int_numeral [simp]:
  "float_to_int (numeral n) = numeral n" "float_to_int 0 = 0" "float_to_int 1 = 1"
  by (simp_all add: float_to_int_def)

lemma rise_fields:
  "mPosX rise_dot = 40" "mPosY rise_dot = 171" "mVelX rise_dot = 0" "mVelY rise_dot = - 40"
  by (simp_all add: rise_dot_def Dot_ctor_def handleEvent_def Let_def)

lemma rise_radius: "circle_r (mCollider rise_dot) = 10"
  by (simp add: rise_dot_def)

lemma rise_stepX:
  "mPosX (stepX wall_map 0.25 (mPosX rise_dot) rise_dot) = 40"
  "mPosY (stepX wall_map 0.25 (mPosX rise_dot) rise_dot) = 171"
  "mVelY (stepX wall_map 0.25 (mPosX rise_dot) rise_dot) = - 40"
  "circle_r (mCollider (stepX wall_map 0.25 (mPosX rise_dot) rise_dot)) = 10"
  by (simp_all add: stepX_pos rise_fields rise_radius touchesWall_wall_map
      mCollider_shiftColliders checkCollision_def distanceSquared_def Let_def)

lemma creep_fields:
  "mPosX creep_dot = 10" "mPosY creep_dot = 10" "mVelX creep_dot = 0" "mVelY creep_dot = 16"
  by (simp_all add: creep_dot_def Dot_ctor_def handleEvent_def Let_def)

lemma creep_radius: "circle_r (mCollider creep_dot) = 10"
  by (simp add: creep_dot_def)

lemma creep_stepX:
  "mPosX (stepX wall_map 4 (mPosX creep_dot) creep_dot) = 10"
  "mPosY (stepX wall_map 4 (mPosX creep_dot) creep_dot) = 10"
  "mVelX (stepX wall_map 4 (mPosX creep_dot) creep_dot) = 0"
  "mVelY (stepX wall_map 4 (mPosX creep_dot) creep_dot) = 16"
  "circle_r (mCollider (stepX wall_map 4 (mPosX creep_dot) creep_dot)) = 10"
  by (simp_all add: stepX_pos stepX_vel creep_fields creep_radius touchesWall_wall_map
      mCollider_shiftColliders checkCollision_def distanceSquared_def Let_def)

text \<open>
  C3, as stated, has the negated damped velocity as the result of the step. The agent
  that \<^verbatim>\<open>main\<close> constructs at \<open>(10, 10)\<close>, dragged to velocity \<open>(0, 16)\<close>, does not touch
  the wall tile \<open>[0, 80] \<times> [80, 160]\<close>; a step of four seconds takes it to \<open>y = 74\<close>,
  where no boundary branch fires and the collider touches the tile. The position is put
  back to \<open>y = 10\<close> and the damped velocity \<open>15.84\<close> is negated, but the step ends with
  velocity 0, not \<open>-15.84\<close>.
\<close>

theorem C3_slow_bounce_counterexample:
  "\<not> touchesWall (mCollider creep_dot) wall_map
   \<and> \<not> mPosY (shiftColliders
            (integrateY 4 (stepX wall_map 4 (mPosX creep_dot) creep_dot))) < 10
   \<and> \<not> mPosY (shiftColliders
            (integrateY 4 (stepX wall_map 4 (mPosX creep_dot) creep_dot))) > 950
   \<and> touchesWall (mCollider (shiftColliders
          (integrateY 4 (stepX wall_map 4 (mPosX creep_dot) creep_dot)))) wall_map
   \<and> mPosY (move wall_map 4 creep_dot) = 10
   \<and> - (mVelY creep_dot * 0.99) = - 15.84
   \<and> mVelY (move wall_map 4 creep_dot) = 0
   \<and> mVelY (move wall_map 4 creep_dot) \<noteq> - (mVelY creep_dot * 0.99)"
proof -
  have pre: "\<not> touchesWall (mCollider creep_dot) wall_map"
    by (simp add: creep_dot_def Dot_ctor_def handleEvent_def Let_def shiftColliders_def
        touchesWall_wall_map checkCollision_def distanceSquared_def DOT_WIDTH_def)
  have hit: "touchesWall (mCollider (shiftColliders
          (integrateY 4 (stepX wall_map 4 (mPosX creep_dot) creep_dot)))) wall_map"
    using creep_stepX
    by (simp add: touchesWall_wall_map mCollider_shiftColliders checkCollision_def
        distanceSquared_def Let_def)
  have pos: "mPosY (move wall_map 4 creep_dot) = 10"
    using hit creep_stepX
    by (simp add: move_axesResolved axesResolved_def stepY_pos creep_fields)
  have vel: "mVelY (move wall_map 4 creep_dot) = 0"
    by (simp add: move_vel axesResolved_speed creep_fields)
  from pre hit pos vel creep_stepX show ?thesis
    by (simp add: creep_fields)
qed

text \<open>
  The agent at \<open>(91, 120)\<close> moves left at 40 for a quarter of a second, reaches \<open>x = 81\<close>
  next to the wall tile \<open>[0, 80] \<times> [80, 160]\<close>, and is put back to \<open>x = 91\<close> with velocity
  \<open>39.6\<close>. The agent at \<open>(40, 171)\<close> moves up at 40, reaches \<open>y = 161\<close> below the same
  tile, and is put back to \<open>y = 171\<close> with velocity \<open>39.6\<close>.
\<close>

theorem C3_wall_revert_witness:
  "\<not> mPosX (shiftColliders (integrateX 0.25 bounce_dot)) < 10
   \<and> \<not> mPosX (shiftColliders (integrateX 0.25 bounce_dot)) > 1270
   \<and> touchesWall (mCollider (shiftColliders (integrateX 0.25 bounce_dot))) wall_map
   \<and> mPosX (shiftColliders (integrateX 0.25 bounce_dot)) = 81
   \<and> mPosX (stepX wall_map 0.25 (mPosX bounce_dot) bounce_dot) = 91
   \<and> mVelX (stepX wall_map 0.25 (mPosX bounce_dot) bounce_dot) = 39.6
   \<and> mPosX (move wall_map 0.25 bounce_dot) = 91
   \<and> mVelX (move wall_map 0.25 bounce_dot) = 39.6
   \<and> \<not> mPosY (shiftColliders
            (integrateY 0.25 (stepX wall_map 0.25 (mPosX rise_dot) rise_dot))) < 10
   \<and> \<not> mPosY (shiftColliders
            (integrateY 0.25 (stepX wall_map 0.25 (mPosX rise_dot) rise_dot))) > 950
   \<and> touchesWall (mCollider (shiftColliders
          (integrateY 0.25 (stepX wall_map 0.25 (mPosX rise_dot) rise_dot)))) wall_map
   \<and> mPosY (axesResolved wall_map 0.25 rise_dot) = 171
   \<and> mVelY (axesResolved wall_map 0.25 rise_dot) = 39.6
   \<and> mPosY (move wall_map 0.25 rise_dot) = 171
   \<and> mVelY (move wall_map 0.25 rise_dot) = 39.6"
proof -
  have h: "\<not> mPosX (shiftColliders (integrateX 0.25 bounce_dot)) < 10
   \<and> \<not> mPosX (shiftColliders (integrateX 0.25 bounce_dot)) > 1270
   \<and> touchesWall (mCollider (shiftColliders (integrateX 0.25 bounce_dot))) wall_map"
    by (simp add: bounce_fields bounce_radius touchesWall_wall_map mCollider_shiftColliders
        checkCollision_def distanceSquared_def Let_def)
  have k: "\<not> mPosY (shiftColliders
            (integrateY 0.25 (stepX wall_map 0.25 (mPosX rise_dot) rise_dot))) < 10
   \<and> \<not> mPosY (shiftColliders
            (integrateY 0.25 (stepX wall_map 0.25 (mPosX rise_dot) rise_dot))) > 950
   \<and> touchesWall (mCollider (shiftColliders
          (integrateY 0.25 (stepX wall_map 0.25 (mPosX rise_dot) rise_dot)))) wall_map"
    using rise_stepX
    by (simp add: touchesWall_wall_map mCollider_shiftColliders checkCollision_def
        distanceSquared_def Let_def)
  from C3_wall_revert [of "0.25" bounce_dot wall_map] h
  have x: "mPosX (shiftColliders (integrateX 0.25 bounce_dot)) = 81
   \<and> mPosX (stepX wall_map 0.25 (mPosX bounce_dot) bounce_dot) = 91
   \<and> mVelX (stepX wall_map 0.25 (mPosX bounce_dot) bounce_dot) = 39.6
   \<and> mPosX (move wall_map 0.25 bounce_dot) = 91
   \<and> mVelX (move wall_map 0.25 bounce_dot) = 39.6"
    by (simp add: bounce_fields)
  from C3_wall_revert [of "0.25" rise_dot wall_map] k
  have y: "mPosY (axesResolved wall_map 0.25 rise_dot) = 171
   \<and> mVelY (axesResolved wall_map 0.25 rise_dot) = 39.6
   \<and> mPosY (move wall_map 0.25 rise_dot) = 171
   \<and> mVelY (move wall_map 0.25 rise_dot) = 39.6"
    by (simp add: rise_fields)
  from h k x y show ?thesis by blast
qed




lemma handleEvent_moving: "\<not> atRest d \<Longrightarrow> handleEvent e d = d"
  by (auto simp add: handleEvent_def atRest_def)

lemma handleEvent_up_vel:
  "mVelX (handleEvent (SDL_MOUSEBUTTONUP rx ry) d) =
     (if atRest d then 2 * real_of_int (mouseX_down d - rx) else mVelX d)"
  "mVelY (handleEvent (SDL_MOUSEBUTTONUP rx ry) d) =
     (if atRest d then 2 * real_of_int (mouseY_down d - ry) else mVelY d)"
  by (simp_all add: handleEvent_def atRest_def Let_def)

lemma handleEvent_down_fields:
  "mouseX_down (handleEvent (SDL_MOUSEBUTTONDOWN px py) d) = (if atRest d then px else mouseX_down d)"
  "mouseY_down (handleEvent (SDL_MOUSEBUTTONDOWN px py) d) = (if atRest d then py else mouseY_down d)"
  "mVelX (handleEvent (SDL_MOUSEBUTTONDOWN px py) d) = mVelX d"
  "mVelY (handleEvent (SDL_MOUSEBUTTONDOWN px py) d) = mVelY d"
  "mPosX (handleEvent (SDL_MOUSEBUTTONDOWN px py) d) = mPosX d"
  "mPosY (handleEvent (SDL_MOUSEBUTTONDOWN px py) d) = mPosY d"
  by (simp_all add: handleEvent_def atRest_def)

lemma handleEvent_up_fields:
  "mouseX_down (handleEvent (SDL_MOUSEBUTTONUP rx ry) d) = mouseX_down d"
  "mouseY_down (handleEvent (SDL_MOUSEBUTTONUP rx ry) d) = mouseY_down d"
  "mPosX (handleEvent (SDL_MOUSEBUTTONUP rx ry) d) = mPosX d"
  "mPosY (handleEvent (SDL_MOUSEBUTTONUP rx ry) d) = mPosY d"
  by (simp_all add: handleEvent_def Let_def)

lemma handleEvent_other [simp]: "handleEvent SDL_OTHER d = d"
  by (simp add: handleEvent_def)

lemma move_mouse [simp]:
  "mouseX_down (move tiles dt d) = mouseX_down d"
  "mouseY_down (move tiles dt d) = mouseY_down d"
  "mouseX_up (move tiles dt d) = mouseX_up d"
  "mouseY_up (move tiles dt d) = mouseY_up d"
  by (simp_all add: move_axesResolved axesResolved_def)

lemma move_atRest: "atRest d \<Longrightarrow> atRest (move tiles dt d)"
  by (simp add: atRest_def move_axesResolved axesResolved_def settle_vel stepX_vel stepY_vel)

lemma apply_call_keeps_press:
  "\<not> (is_press c \<and> atRest d) \<Longrightarrow>
     mouseX_down (apply_call c d) = mouseX_down d
     \<and> mouseY_down (apply_call c d) = mouseY_down d"
proof (cases c)
  case (HandleEvent e)
  assume "\<not> (is_press c \<and> atRest d)"
  with HandleEvent show ?thesis
    by (cases e) (simp_all add: handleEvent_down_fields handleEvent_up_fields)
next
  case (Move tiles dt)
  then show ?thesis by simp
qed

lemma run_keeps_press:
  "no_press_recorded cs d \<Longrightarrow>
     mouseX_down (run cs d) = mouseX_down d \<and> mouseY_down (run cs d) = mouseY_down d"
proof (induction cs arbitrary: d)
  case Nil
  then show ?case by simp
next
  case (Cons c cs)
  from Cons.prems have a: "\<not> (is_press c \<and> atRest d)"
    and b: "no_press_recorded cs (apply_call c d)"
    by simp_all
  from Cons.IH [OF b] apply_call_keeps_press [OF a] show ?case
    by simp
qed

lemma apply_call_no_mouse:
  "\<not> is_mouse c \<Longrightarrow> atRest d \<Longrightarrow>
     atRest (apply_call c d) \<and> mouseX_down (apply_call c d) = mouseX_down d
     \<and> mouseY_down (apply_call c d) = mouseY_down d"
proof (cases c)
  case (HandleEvent e)
  assume "\<not> is_mouse c" "atRest d"
  with HandleEvent show ?thesis by (cases e) simp_all
next
  case (Move tiles dt)
  assume "atRest d"
  with Move show ?thesis by (simp add: move_atRest)
qed

lemma run_no_mouse:
  "list_all (\<lambda>c. \<not> is_mouse c) cs \<Longrightarrow> atRest d \<Longrightarrow>
     atRest (run cs d) \<and> mouseX_down (run cs d) = mouseX_down d
     \<and> mouseY_down (run cs d) = mouseY_down d"
proof (induction cs arbitrary: d)
  case Nil
  then show ?case by simp
next
  case (Cons c cs)
  from Cons.prems have c: "\<not> is_mouse c" and cs: "list_all (\<lambda>c. \<not> is_mouse c) cs"
    by simp_all
  note step = apply_call_no_mouse [OF c \<open>atRest d\<close>]
  from Cons.IH [OF cs] step show ?case by simp
qed

text \<open>
  C6, amended: while the agent is moving, \<^verbatim>\<open>handleEvent\<close> changes nothing: a press or a
  release is not recorded in the stored press and release fields, the velocity does not
  change, and the rest of a run is the same as if the event had not occurred.
\<close>

theorem C6_moving_ignored:
  "\<not> atRest d \<longrightarrow> handleEvent e d = d \<and> run (HandleEvent e # cs) d = run cs d"
  by (simp add: handleEvent_moving)

text \<open>
  C5, amended: a release at \<open>(rx, ry)\<close> adds twice the difference of the stored press and
  the release to the velocity if and only if the agent is at rest when the release
  itself is handled, and leaves the velocity unchanged otherwise. When the agent is at
  rest at the press at \<open>(px, py)\<close> and only movement steps and events other than mouse
  buttons come before the release, the velocity after the release is
  \<open>(2 * (px - rx), 2 * (py - ry))\<close>.
\<close>

theorem C5_release_gate:
  "mVelX (handleEvent (SDL_MOUSEBUTTONUP rx ry) d) =
     (if atRest d then mVelX d + real_of_int (mouseX_down d - rx) * 2 else mVelX d)
   \<and> mVelY (handleEvent (SDL_MOUSEBUTTONUP rx ry) d) =
     (if atRest d then mVelY d + real_of_int (mouseY_down d - ry) * 2 else mVelY d)
   \<and> (atRest d \<and> list_all (\<lambda>c. \<not> is_mouse c) cs \<longrightarrow>
        mVelX (handleEvent (SDL_MOUSEBUTTONUP rx ry)
                 (run cs (handleEvent (SDL_MOUSEBUTTONDOWN px py) d)))
          = 2 * real_of_int (px - rx)
        \<and> mVelY (handleEvent (SDL_MOUSEBUTTONUP rx ry)
                 (run cs (handleEvent (SDL_MOUSEBUTTONDOWN px py) d)))
          = 2 * real_of_int (py - ry))"
proof (intro conjI impI)
  assume a: "atRest d \<and> list_all (\<lambda>c. \<not> is_mouse c) cs"
  then have r: "atRest (handleEvent (SDL_MOUSEBUTTONDOWN px py) d)"
    by (simp add: atRest_def handleEvent_down_fields)
  from a have l: "list_all (\<lambda>c. \<not> is_mouse c) cs" by simp
  note k = run_no_mouse [OF l r]
  from k a show "mVelX (handleEvent (SDL_MOUSEBUTTONUP rx ry)
                 (run cs (handleEvent (SDL_MOUSEBUTTONDOWN px py) d)))
          = 2 * real_of_int (px - rx)"
    by (simp add: handleEvent_up_vel handleEvent_down_fields)
  from k a show "mVelY (handleEvent (SDL_MOUSEBUTTONUP rx ry)
                 (run cs (handleEvent (SDL_MOUSEBUTTONDOWN px py) d)))
          = 2 * real_of_int (py - ry)"
    by (simp add: handleEvent_up_vel handleEvent_down_fields)
qed (simp_all add: handleEvent_up_vel atRest_def)

text \<open>
  C10: the constructor leaves the four stored mouse coordinates as the storage had them.
  A release handled at rest computes its impulse from the stored press: the content of
  the storage when no press has been handled at rest since construction, and the press
  of an earlier gesture when every press since then was handled while moving.
\<close>

theorem C10_stored_press:
  "mouseX_down (Dot_ctor storage x y) = mouseX_down storage
   \<and> mouseY_down (Dot_ctor storage x y) = mouseY_down storage
   \<and> mouseX_up (Dot_ctor storage x y) = mouseX_up storage
   \<and> mouseY_up (Dot_ctor storage x y) = mouseY_up storage
   \<and> (no_press_recorded cs (Dot_ctor storage x y) \<and> atRest (run cs (Dot_ctor storage x y))
      \<longrightarrow> mVelX (handleEvent (SDL_MOUSEBUTTONUP rx ry) (run cs (Dot_ctor storage x y)))
            = 2 * real_of_int (mouseX_down storage - rx)
          \<and> mVelY (handleEvent (SDL_MOUSEBUTTONUP rx ry) (run cs (Dot_ctor storage x y)))
            = 2 * real_of_int (mouseY_down storage - ry))
   \<and> (atRest d \<and> no_press_recorded cs' (handleEvent (SDL_MOUSEBUTTONDOWN px py) d)
        \<and> atRest (run cs' (handleEvent (SDL_MOUSEBUTTONDOWN px py) d))
      \<longrightarrow> mVelX (handleEvent (SDL_MOUSEBUTTONUP rx' ry')
                   (run cs' (handleEvent (SDL_MOUSEBUTTONDOWN px py) d)))
            = 2 * real_of_int (px - rx')
          \<and> mVelY (handleEvent (SDL_MOUSEBUTTONUP rx' ry')
                   (run cs' (handleEvent (SDL_MOUSEBUTTONDOWN px py) d)))
            = 2 * real_of_int (py - ry'))"
proof -
  have ctor: "mouseX_down (Dot_ctor storage x y) = mouseX_down storage"
    "mouseY_down (Dot_ctor storage x y) = mouseY_down storage"
    "mouseX_up (Dot_ctor storage x y) = mouseX_up storage"
    "mouseY_up (Dot_ctor storage x y) = mouseY_up storage"
    by (simp_all add: Dot_ctor_def)
  have fresh: "mVelX (handleEvent (SDL_MOUSEBUTTONUP rx ry) (run cs (Dot_ctor storage x y)))
            = 2 * real_of_int (mouseX_down storage - rx)
          \<and> mVelY (handleEvent (SDL_MOUSEBUTTONUP rx ry) (run cs (Dot_ctor storage x y)))
            = 2 * real_of_int (mouseY_down storage - ry)"
    if "no_press_recorded cs (Dot_ctor storage x y) \<and> atRest (run cs (Dot_ctor storage x y))"
    using that run_keeps_press [of cs "Dot_ctor storage x y"]
    by (simp add: handleEvent_up_vel ctor)
  have stale: "mVelX (handleEvent (SDL_MOUSEBUTTONUP rx' ry')
                   (run cs' (handleEvent (SDL_MOUSEBUTTONDOWN px py) d)))
            = 2 * real_of_int (px - rx')
          \<and> mVelY (handleEvent (SDL_MOUSEBUTTONUP rx' ry')
                   (run cs' (handleEvent (SDL_MOUSEBUTTONDOWN px py) d)))
            = 2 * real_of_int (py - ry')"
    if "atRest d \<and> no_press_recorded cs' (handleEvent (SDL_MOUSEBUTTONDOWN px py) d)
        \<and> atRest (run cs' (handleEvent (SDL_MOUSEBUTTONDOWN px py) d))"
    using that run_keeps_press [of cs' "handleEvent (SDL_MOUSEBUTTONDOWN px py) d"]
    by (simp add: handleEvent_up_vel handleEvent_down_fields)
  from ctor fresh stale show ?thesis
    by blast
qed

lemma ctor_fields:
  "mPosX (Dot_ctor storage x y) = real_of_int x"
  "mPosY (Dot_ctor storage x y) = real_of_int y"
  "mVelX (Dot_ctor storage x y) = 0"
  "mVelY (Dot_ctor storage x y) = 0"
  "mouseX_down (Dot_ctor storage x y) = mouseX_down storage"
  "mouseY_down (Dot_ctor storage x y) = mouseY_down storage"
  "mouseX_up (Dot_ctor storage x y) = mouseX_up storage"
  "mouseY_up (Dot_ctor storage x y) = mouseY_up storage"
  by (simp_all add: Dot_ctor_def)

lemma ctor_atRest [simp]: "atRest (Dot_ctor storage x y)"
  by (simp add: atRest_def ctor_fields)

lemma handleEvent_up_mouse_up:
  "mouseX_up (handleEvent (SDL_MOUSEBUTTONUP rx ry) d) = (if atRest d then rx else mouseX_up d)"
  "mouseY_up (handleEvent (SDL_MOUSEBUTTONUP rx ry) d) = (if atRest d then ry else mouseY_up d)"
  by (simp_all add: handleEvent_def atRest_def Let_def)

lemma gesture_fields:
  "mPosX gesture_dot = 100" "mPosY gesture_dot = 100"
  "mVelX gesture_dot = 20" "mVelY gesture_dot = 0"
  "mouseX_down gesture_dot = 60" "mouseY_down gesture_dot = 50"
  "mouseX_up gesture_dot = 50" "mouseY_up gesture_dot = 50"
  by (simp_all add: gesture_dot_def handleEvent_up_vel handleEvent_up_fields
      handleEvent_up_mouse_up handleEvent_down_fields ctor_fields atRest_def)

lemma gesture_moving: "\<not> atRest gesture_dot"
  by (simp add: atRest_def gesture_fields)

lemma gesture_settles:
  "mVelX (move open_map 1 gesture_dot) = 0" "mVelY (move open_map 1 gesture_dot) = 0"
  by (simp_all add: move_axesResolved axesResolved_def settle_vel stepX_vel stepY_vel
      gesture_fields)

text \<open>
  C5, as stated, ties the impulse to the state at the press. The agent below is moving
  when the press at \<open>(60, 50)\<close> is handled; it settles in the next step, and the release
  at \<open>(40, 50)\<close> then adds \<open>((60 - 40) * 2, (50 - 50) * 2)\<close> to its velocity.
\<close>

theorem C5_release_gate_counterexample:
  "\<not> atRest gesture_dot
   \<and> mVelX (move open_map 1 (handleEvent (SDL_MOUSEBUTTONDOWN 60 50) gesture_dot)) = 0
   \<and> mVelY (move open_map 1 (handleEvent (SDL_MOUSEBUTTONDOWN 60 50) gesture_dot)) = 0
   \<and> mVelX (handleEvent (SDL_MOUSEBUTTONUP 40 50)
        (move open_map 1 (handleEvent (SDL_MOUSEBUTTONDOWN 60 50) gesture_dot)))
       = 0 + (60 - 40) * 2
   \<and> mVelY (handleEvent (SDL_MOUSEBUTTONUP 40 50)
        (move open_map 1 (handleEvent (SDL_MOUSEBUTTONDOWN 60 50) gesture_dot)))
       = 0 + (50 - 50) * 2"
  by (simp add: handleEvent_moving [OF gesture_moving] gesture_moving gesture_settles
      handleEvent_up_vel atRest_def gesture_fields)

text \<open>A gesture from rest, with a movement step and another event between press and release.\<close>

theorem C5_release_gate_witness:
  "atRest (Dot_ctor blank 100 100)
   \<and> list_all (\<lambda>c. \<not> is_mouse c) [Move open_map 1, HandleEvent SDL_OTHER]
   \<and> mVelX (handleEvent (SDL_MOUSEBUTTONUP 50 50)
        (run [Move open_map 1, HandleEvent SDL_OTHER]
           (handleEvent (SDL_MOUSEBUTTONDOWN 60 50) (Dot_ctor blank 100 100)))) = 20
   \<and> mVelY (handleEvent (SDL_MOUSEBUTTONUP 50 50)
        (run [Move open_map 1, HandleEvent SDL_OTHER]
           (handleEvent (SDL_MOUSEBUTTONDOWN 60 50) (Dot_ctor blank 100 100)))) = 0"
  using C5_release_gate [of 50 50 "Dot_ctor blank 100 100"
      "[Move open_map 1, HandleEvent SDL_OTHER]" 60 50]
  by simp

text \<open>
  C6, as stated, has the events recorded while moving. The moving agent below holds the
  press \<open>(60, 50)\<close> and the release \<open>(50, 50)\<close>; a press and a release at \<open>(5, 7)\<close> leave
  both as they are.
\<close>

theorem C6_moving_recorded_counterexample:
  "\<not> atRest gesture_dot
   \<and> mouseX_down (handleEvent (SDL_MOUSEBUTTONDOWN 5 7) gesture_dot) = 60
   \<and> mouseY_down (handleEvent (SDL_MOUSEBUTTONDOWN 5 7) gesture_dot) = 50
   \<and> mouseX_up (handleEvent (SDL_MOUSEBUTTONUP 5 7) gesture_dot) = 50
   \<and> mouseY_up (handleEvent (SDL_MOUSEBUTTONUP 5 7) gesture_dot) = 50"
  by (simp add: handleEvent_moving [OF gesture_moving] gesture_moving gesture_fields)

text \<open>The same moving agent.\<close>

theorem C6_moving_ignored_witness:
  "\<not> atRest gesture_dot
   \<and> handleEvent (SDL_MOUSEBUTTONDOWN 5 7) gesture_dot = gesture_dot
   \<and> run [HandleEvent (SDL_MOUSEBUTTONDOWN 5 7), Move open_map 1] gesture_dot
       = run [Move open_map 1] gesture_dot"
  using C6_moving_ignored [of gesture_dot "SDL_MOUSEBUTTONDOWN 5 7" "[Move open_map 1]"]
    gesture_moving
  by simp

lemma stale_run_eq:
  "run stale_run (handleEvent (SDL_MOUSEBUTTONDOWN 60 50) (Dot_ctor blank 100 100))
     = move open_map 1 gesture_dot"
  by (simp add: stale_run_def handleEvent_moving gesture_moving gesture_dot_def [symmetric])

lemma stale_run_no_press:
  "no_press_recorded stale_run (handleEvent (SDL_MOUSEBUTTONDOWN 60 50) (Dot_ctor blank 100 100))"
  by (simp add: stale_run_def gesture_moving gesture_dot_def [symmetric])

text \<open>
  An agent built in storage that holds \<open>(7, 9)\<close> in the press fields, released at
  \<open>(2, 4)\<close>; and an agent whose press \<open>(60, 50)\<close> is followed by a press at \<open>(0, 0)\<close>
  while moving and a release at \<open>(40, 50)\<close> after it has settled.
\<close>

theorem C10_stored_press_witness:
  "no_press_recorded [Move open_map 1] (Dot_ctor used_storage 10 10)
   \<and> atRest (run [Move open_map 1] (Dot_ctor used_storage 10 10))
   \<and> mVelX (handleEvent (SDL_MOUSEBUTTONUP 2 4)
        (run [Move open_map 1] (Dot_ctor used_storage 10 10))) = 10
   \<and> mVelY (handleEvent (SDL_MOUSEBUTTONUP 2 4)
        (run [Move open_map 1] (Dot_ctor used_storage 10 10))) = 10
   \<and> atRest (Dot_ctor blank 100 100)
   \<and> no_press_recorded stale_run
        (handleEvent (SDL_MOUSEBUTTONDOWN 60 50) (Dot_ctor blank 100 100))
   \<and> atRest (run stale_run (handleEvent (SDL_MOUSEBUTTONDOWN 60 50) (Dot_ctor blank 100 100)))
   \<and> mVelX (handleEvent (SDL_MOUSEBUTTONUP 40 50)
        (run stale_run (handleEvent (SDL_MOUSEBUTTONDOWN 60 50) (Dot_ctor blank 100 100))))
       = 40
   \<and> mVelY (handleEvent (SDL_MOUSEBUTTONUP 40 50)
        (run stale_run (handleEvent (SDL_MOUSEBUTTONDOWN 60 50) (Dot_ctor blank 100 100))))
       = 0"
proof -
  have a: "no_press_recorded [Move open_map 1] (Dot_ctor used_storage 10 10)
     \<and> atRest (run [Move open_map 1] (Dot_ctor used_storage 10 10))"
    by (simp add: move_atRest)
  have b: "atRest (Dot_ctor blank 100 100)
     \<and> no_press_recorded stale_run
          (handleEvent (SDL_MOUSEBUTTONDOWN 60 50) (Dot_ctor blank 100 100))
     \<and> atRest (run stale_run (handleEvent (SDL_MOUSEBUTTONDOWN 60 50) (Dot_ctor blank 100 100)))"
    by (simp add: stale_run_no_press stale_run_eq atRest_def gesture_settles ctor_fields)
  from a b
    C10_stored_press [where storage = used_storage and x = 10 and y = 10
      and cs = "[Move open_map 1]" and rx = 2 and ry = 4
      and d = "Dot_ctor blank 100 100" and px = 60 and py = 50 and cs' = stale_run
      and rx' = 40 and ry' = 50]
  show ?thesis
    by (simp add: used_storage_def)
qed

lemma handleEvent_pos [simp]:
  "mPosX (handleEvent e d) = mPosX d" "mPosY (handleEvent e d) = mPosY d"
  by (simp_all add: handleEvent_def Let_def split: SDL_Event.splits)

lemma handleEvent_down_atRest [simp]:
  "atRest (handleEvent (SDL_MOUSEBUTTONDOWN px py) d) = atRest d"
  by (simp add: atRest_def handleEvent_down_fields)

lemma synced_shiftColliders [simp]: "synced (shiftColliders d)"
  by (simp add: synced_def)

lemma synced_settle [simp]: "synced (settle d) = synced d"
  by (simp add: synced_def)



lemma move_pos:
  "mPosX (move tiles dt d) =
     (if 10 \<le> mPosX d + mVelX d * dt \<and> mPosX d + mVelX d * dt \<le> 1270
         \<and> touchesWall (mCollider (shiftColliders (integrateX dt d))) tiles
      then mPosX d
      else max 10 (min 1270 (mPosX d + mVelX d * dt)))"
  "mPosY (move tiles dt d) =
     (if 10 \<le> mPosY d + mVelY d * dt \<and> mPosY d + mVelY d * dt \<le> 950
         \<and> touchesWall (mCollider (shiftColliders
               (integrateY dt (stepX tiles dt (mPosX d) d)))) tiles
      then mPosY d
      else max 10 (min 950 (mPosY d + mVelY d * dt)))"
  by (auto simp add: move_axesResolved axesResolved_def stepX_pos stepY_pos)

lemma move_in_range:
  "10 \<le> mPosX d \<and> mPosX d \<le> 1270 \<Longrightarrow>
     10 \<le> mPosX (move tiles dt d) \<and> mPosX (move tiles dt d) \<le> 1270"
  "10 \<le> mPosY d \<and> mPosY d \<le> 950 \<Longrightarrow>
     10 \<le> mPosY (move tiles dt d) \<and> mPosY (move tiles dt d) \<le> 950"
  by (auto simp add: move_pos)

lemma apply_call_in_range:
  assumes "10 \<le> mPosX d \<and> mPosX d \<le> 1270 \<and> 10 \<le> mPosY d \<and> mPosY d \<le> 950"
  shows "10 \<le> mPosX (apply_call c d) \<and> mPosX (apply_call c d) \<le> 1270
         \<and> 10 \<le> mPosY (apply_call c d) \<and> mPosY (apply_call c d) \<le> 950"
proof (cases c)
  case (HandleEvent e)
  with assms show ?thesis by simp
next
  case (Move tiles dt)
  with assms move_in_range [of d tiles dt] show ?thesis by simp
qed

lemma run_in_range:
  "10 \<le> mPosX d \<and> mPosX d \<le> 1270 \<and> 10 \<le> mPosY d \<and> mPosY d \<le> 950 \<Longrightarrow>
     10 \<le> mPosX (run cs d) \<and> mPosX (run cs d) \<le> 1270
     \<and> 10 \<le> mPosY (run cs d) \<and> mPosY (run cs d) \<le> 950"
proof (induction cs arbitrary: d)
  case Nil
  then show ?case by simp
next
  case (Cons c cs)
  from Cons.IH [OF apply_call_in_range [OF Cons.prems]] show ?case by simp
qed

text \<open>
  C7: for every time step and tile map, after one movement step the position of the
  agent lies within \<open>[10, 1270]\<close> horizontally and \<open>[10, 950]\<close> vertically. On each axis
  the step ends at the integrated position clamped to the range, except where the
  integrated position is within the range and the collider touches a wall, where it ends
  at the position before the step; so a position within the range stays within it. The
  agent is constructed at \<open>(10, 10)\<close>, and every step of every run of the main loop from
  there ends within the range.
\<close>

theorem C7_position_range:
  "mPosX (move tiles dt d) =
     (if 10 \<le> mPosX d + mVelX d * dt \<and> mPosX d + mVelX d * dt \<le> 1270
         \<and> touchesWall (mCollider (shiftColliders (integrateX dt d))) tiles
      then mPosX d
      else max 10 (min 1270 (mPosX d + mVelX d * dt)))
   \<and> mPosY (move tiles dt d) =
     (if 10 \<le> mPosY d + mVelY d * dt \<and> mPosY d + mVelY d * dt \<le> 950
         \<and> touchesWall (mCollider (shiftColliders
               (integrateY dt (stepX tiles dt (mPosX d) d)))) tiles
      then mPosY d
      else max 10 (min 950 (mPosY d + mVelY d * dt)))
   \<and> (10 \<le> mPosX d \<and> mPosX d \<le> 1270
      \<longrightarrow> 10 \<le> mPosX (move tiles dt d) \<and> mPosX (move tiles dt d) \<le> 1270)
   \<and> (10 \<le> mPosY d \<and> mPosY d \<le> 950
      \<longrightarrow> 10 \<le> mPosY (move tiles dt d) \<and> mPosY (move tiles dt d) \<le> 950)
   \<and> 10 \<le> mPosX (move tiles' dt' (run cs (Dot_ctor storage 10 10)))
   \<and> mPosX (move tiles' dt' (run cs (Dot_ctor storage 10 10))) \<le> 1270
   \<and> 10 \<le> mPosY (move tiles' dt' (run cs (Dot_ctor storage 10 10)))
   \<and> mPosY (move tiles' dt' (run cs (Dot_ctor storage 10 10))) \<le> 950"
proof -
  have "10 \<le> mPosX (Dot_ctor storage 10 10) \<and> mPosX (Dot_ctor storage 10 10) \<le> 1270
      \<and> 10 \<le> mPosY (Dot_ctor storage 10 10) \<and> mPosY (Dot_ctor storage 10 10) \<le> 950"
    by (simp add: ctor_fields)
  from run_in_range [OF this, of cs]
    move_in_range [of "run cs (Dot_ctor storage 10 10)" tiles' dt']
  have r: "10 \<le> mPosX (move tiles' dt' (run cs (Dot_ctor storage 10 10)))
   \<and> mPosX (move tiles' dt' (run cs (Dot_ctor storage 10 10))) \<le> 1270
   \<and> 10 \<le> mPosY (move tiles' dt' (run cs (Dot_ctor storage 10 10)))
   \<and> mPosY (move tiles' dt' (run cs (Dot_ctor storage 10 10))) \<le> 950"
    by blast
  from move_pos [of tiles dt d] move_in_range [of d tiles dt] r show ?thesis
    by blast
qed

lemma creep_run_eq: "run creep_run (Dot_ctor blank 10 10) = creep_dot"
  by (simp add: creep_run_def creep_dot_def)

text \<open>
  The agent of \<^verbatim>\<open>main\<close>, dragged to velocity \<open>(0, 16)\<close>, is put back to \<open>(10, 10)\<close> by the
  wall tile after a step of four seconds; and the agent at \<open>(91, 120)\<close> that moves left
  into the wall tile stays within the range.
\<close>

theorem C7_position_range_witness:
  "10 \<le> mPosX bounce_dot \<and> mPosX bounce_dot \<le> 1270
   \<and> 10 \<le> mPosY bounce_dot \<and> mPosY bounce_dot \<le> 950
   \<and> 10 \<le> mPosX (move wall_map 1 bounce_dot) \<and> mPosX (move wall_map 1 bounce_dot) \<le> 1270
   \<and> 10 \<le> mPosY (move wall_map 1 bounce_dot) \<and> mPosY (move wall_map 1 bounce_dot) \<le> 950
   \<and> mPosX (move wall_map 4 (run creep_run (Dot_ctor blank 10 10))) = 10
   \<and> mPosY (move wall_map 4 (run creep_run (Dot_ctor blank 10 10))) = 10
   \<and> 10 \<le> mPosX (move wall_map 4 (run creep_run (Dot_ctor blank 10 10)))
   \<and> mPosX (move wall_map 4 (run creep_run (Dot_ctor blank 10 10))) \<le> 1270
   \<and> 10 \<le> mPosY (move wall_map 4 (run creep_run (Dot_ctor blank 10 10)))
   \<and> mPosY (move wall_map 4 (run creep_run (Dot_ctor blank 10 10))) \<le> 950"
proof -
  have hit: "touchesWall (mCollider (shiftColliders
          (integrateY 4 (stepX wall_map 4 (mPosX creep_dot) creep_dot)))) wall_map"
    using creep_stepX
    by (simp add: touchesWall_wall_map mCollider_shiftColliders checkCollision_def
        distanceSquared_def Let_def)
  have miss: "\<not> touchesWall (mCollider (shiftColliders (integrateX 4 creep_dot))) wall_map"
    by (simp add: creep_fields creep_radius touchesWall_wall_map mCollider_shiftColliders
        checkCollision_def distanceSquared_def Let_def)
  from C7_position_range [of wall_map 4 creep_dot wall_map 4 creep_run blank] hit miss
  have a: "mPosX (move wall_map 4 (run creep_run (Dot_ctor blank 10 10))) = 10
   \<and> mPosY (move wall_map 4 (run creep_run (Dot_ctor blank 10 10))) = 10
   \<and> 10 \<le> mPosX (move wall_map 4 (run creep_run (Dot_ctor blank 10 10)))
   \<and> mPosX (move wall_map 4 (run creep_run (Dot_ctor blank 10 10))) \<le> 1270
   \<and> 10 \<le> mPosY (move wall_map 4 (run creep_run (Dot_ctor blank 10 10)))
   \<and> mPosY (move wall_map 4 (run creep_run (Dot_ctor blank 10 10))) \<le> 950"
    by (simp add: creep_run_eq creep_fields)
  from C7_position_range [of wall_map 1 bounce_dot wall_map 1 "[]" blank]
  have b: "10 \<le> mPosX bounce_dot \<and> mPosX bounce_dot \<le> 1270
   \<and> 10 \<le> mPosY bounce_dot \<and> mPosY bounce_dot \<le> 950
   \<and> 10 \<le> mPosX (move wall_map 1 bounce_dot) \<and> mPosX (move wall_map 1 bounce_dot) \<le> 1270
   \<and> 10 \<le> mPosY (move wall_map 1 bounce_dot) \<and> mPosY (move wall_map 1 bounce_dot) \<le> 950"
    by (simp add: bounce_fields)
  from a b show ?thesis by blast
qed



section \<open>Properties of the tile-map loader\<close>

lemma loop_done: "\<not> i < 192 \<Longrightarrow> setTiles_loop i x y codes tiles = Inr tiles"
  by (subst setTiles_loop.simps) (simp add: TOTAL_TILES_def)

lemma loop_empty: "i < 192 \<Longrightarrow> setTiles_loop i x y [] tiles = Inl UnexpectedEndOfFile"
  by (subst setTiles_loop.simps) (simp add: TOTAL_TILES_def)

lemma loop_invalid:
  "i < 192 \<Longrightarrow> \<not> valid_code c \<Longrightarrow>
     setTiles_loop i x y (c # rest) tiles = Inl (InvalidTileType i)"
  by (subst setTiles_loop.simps) (auto simp add: TOTAL_TILES_def TOTAL_TILE_SPRITES_def valid_code_def)

lemma next_column:
  "int (i mod 16) * 80 + 80 < 1280 \<Longrightarrow> Suc i mod 16 = Suc (i mod 16) \<and> Suc i div 16 = i div 16"
  by (auto simp add: mod_Suc div_Suc)

lemma next_row:
  "\<not> int (i mod 16) * 80 + 80 < 1280 \<Longrightarrow> Suc i mod 16 = 0 \<and> Suc i div 16 = Suc (i div 16)"
proof -
  assume "\<not> int (i mod 16) * 80 + 80 < 1280"
  then have "15 \<le> i mod 16" by linarith
  moreover have "i mod 16 < 16" by simp
  ultimately have "i mod 16 = 15" by linarith
  then show ?thesis by (simp add: mod_Suc div_Suc)
qed

lemma loop_valid:
  "i < 192 \<Longrightarrow> valid_code c \<Longrightarrow> x = 80 * int (i mod 16) \<Longrightarrow> y = 80 * int (i div 16) \<Longrightarrow>
     setTiles_loop i x y (c # rest) tiles =
       setTiles_loop (Suc i) (80 * int (Suc i mod 16)) (80 * int (Suc i div 16)) rest
         (tiles @ [tile_at i c])"
proof (cases "int (i mod 16) * 80 + 80 < 1280")
  case True
  assume "i < 192" "valid_code c" "x = 80 * int (i mod 16)" "y = 80 * int (i div 16)"
  with True next_column [OF True] show ?thesis
    by (subst setTiles_loop.simps)
       (simp add: TOTAL_TILES_def TOTAL_TILE_SPRITES_def valid_code_def Let_def
          TILE_WIDTH_def TILE_HEIGHT_def SCREEN_WIDTH_def tile_at_def algebra_simps)
next
  case False
  assume "i < 192" "valid_code c" "x = 80 * int (i mod 16)" "y = 80 * int (i div 16)"
  with False next_row [OF False] show ?thesis
    by (subst setTiles_loop.simps)
       (simp add: TOTAL_TILES_def TOTAL_TILE_SPRITES_def valid_code_def Let_def
          TILE_WIDTH_def TILE_HEIGHT_def SCREEN_WIDTH_def tile_at_def algebra_simps)
qed

lemma loop_result:
  "x = 80 * int (i mod 16) \<Longrightarrow> y = 80 * int (i div 16) \<Longrightarrow>
   setTiles_loop i x y codes tiles =
     (if 192 - i \<le> length codes \<and> list_all valid_code (take (192 - i) codes)
      then Inr (tiles @ map (\<lambda>(k, c). tile_at k c) (zip [i..<192] codes))
      else if list_all valid_code (take (192 - i) codes)
      then Inl UnexpectedEndOfFile
      else Inl (InvalidTileType (i + length (takeWhile valid_code codes))))"
proof (induction codes arbitrary: i x y tiles)
  case Nil
  then show ?case
    by (cases "i < 192") (simp_all add: loop_done loop_empty)
next
  case (Cons c rest)
  show ?case
  proof (cases "i < 192")
    case False
    then show ?thesis by (simp add: loop_done)
  next
    case True
    then have upt: "[i..<192] = i # [Suc i..<192]" by (simp add: upt_conv_Cons)
    from True have tk: "take (192 - i) (c # rest) = c # take (192 - Suc i) rest"
      by (simp add: take_Cons')
    show ?thesis
    proof (cases "valid_code c")
      case False
      with True show ?thesis by (simp add: loop_invalid tk)
    next
      case valid: True
      have "setTiles_loop i x y (c # rest) tiles =
          setTiles_loop (Suc i) (80 * int (Suc i mod 16)) (80 * int (Suc i div 16)) rest
            (tiles @ [tile_at i c])"
        using True valid Cons.prems by (rule loop_valid)
      also have "\<dots> =
        (if 192 - Suc i \<le> length rest \<and> list_all valid_code (take (192 - Suc i) rest)
         then Inr ((tiles @ [tile_at i c]) @ map (\<lambda>(k, c). tile_at k c) (zip [Suc i..<192] rest))
         else if list_all valid_code (take (192 - Suc i) rest)
         then Inl UnexpectedEndOfFile
         else Inl (InvalidTileType (Suc i + length (takeWhile valid_code rest))))"
        by (rule Cons.IH) simp_all
      finally show ?thesis
        using True valid by (auto simp add: tk upt)
    qed
  qed
qed

lemma setTiles_result:
  "setTiles (Some codes) =
     (if 192 \<le> length codes \<and> list_all valid_code (take 192 codes)
      then Inr (map (\<lambda>(k, c). tile_at k c) (zip [0..<192] codes))
      else if list_all valid_code (take 192 codes)
      then Inl UnexpectedEndOfFile
      else Inl (InvalidTileType (length (takeWhile valid_code codes))))"
  using loop_result [of 0 0 0 codes "[]"] by (simp add: setTiles_def del: take_all)

text \<open>
  C9, as stated, has every sequence longer than 192 codes fail. The loop reads 192 codes
  and stops: a sequence of 193 valid codes loads, and so does a sequence whose 193rd
  code is 99.
\<close>

theorem C9_setTiles_counterexample:
  "192 < length (replicate 193 (0::int))
   \<and> \<not> isl (setTiles (Some (replicate 193 0)))
   \<and> \<not> isl (setTiles (Some (replicate 192 0 @ [99])))"
  by (simp add: setTiles_result valid_code_def list_all_iff)

text \<open>
  C9, amended: when the map file opens, loading fails if and only if the sequence has
  fewer than 192 codes or one of its first 192 codes lies outside \<open>[0, 12)\<close>; codes
  after the 192nd are not read. On success exactly 192 tiles are built, tile \<open>i\<close> from
  code \<open>i\<close> at the row-major position \<open>(80 * (i mod 16), 80 * (i div 16))\<close>.
\<close>

theorem C9_setTiles:
  "(isl (setTiles (Some codes)) \<longleftrightarrow>
      length codes < 192 \<or> (\<exists>c \<in> set (take 192 codes). c < 0 \<or> 12 \<le> c))
   \<and> (\<forall>tiles. setTiles (Some codes) = Inr tiles \<longrightarrow>
        length tiles = 192
        \<and> (\<forall>i < 192. tiles ! i
              = Tile_ctor (80 * (int i mod 16)) (80 * (int i div 16)) (codes ! i)))"
proof -
  have a: "isl (setTiles (Some codes)) \<longleftrightarrow>
      length codes < 192 \<or> (\<exists>c \<in> set (take 192 codes). c < 0 \<or> 12 \<le> c)"
  proof (cases "192 \<le> length codes \<and> list_all valid_code (take 192 codes)")
    case True
    then show ?thesis
      by (simp add: setTiles_result) (fastforce simp add: list_all_iff valid_code_def)
  next
    case False
    then have "isl (setTiles (Some codes))"
      by (simp add: setTiles_result)
    moreover from False
    have "length codes < 192 \<or> (\<exists>c \<in> set (take 192 codes). c < 0 \<or> 12 \<le> c)"
      by (fastforce simp add: list_all_iff valid_code_def)
    ultimately show ?thesis by simp
  qed
  have b: "length tiles = 192
        \<and> (\<forall>i < 192. tiles ! i
              = Tile_ctor (80 * (int i mod 16)) (80 * (int i div 16)) (codes ! i))"
    if "setTiles (Some codes) = Inr tiles" for tiles
  proof -
    from that have len: "192 \<le> length codes"
      and t: "tiles = map (\<lambda>(k, c). tile_at k c) (zip [0..<192] codes)"
      by (auto simp add: setTiles_result split: if_splits)
    from len have l: "length tiles = 192" by (simp add: t)
    have "tiles ! i = Tile_ctor (80 * (int i mod 16)) (80 * (int i div 16)) (codes ! i)"
      if "i < 192" for i
      using that len by (simp add: t tile_at_def zmod_int zdiv_int)
    with l show ?thesis by simp
  qed
  from a b show ?thesis by blast
qed

lemma open_map_loaded: "setTiles (Some (replicate 192 0)) = Inr open_map"
  by (simp add: setTiles_result valid_code_def list_all_iff open_map_def tile_at_def
      list_eq_iff_nth_eq zmod_int zdiv_int)

lemma wall_map_loaded: "setTiles (Some wall_codes) = Inr wall_map"
  by (simp add: setTiles_result valid_code_def list_all_iff wall_map_def wall_codes_def
      tile_at_def list_eq_iff_nth_eq zmod_int zdiv_int)

text \<open>
  A sequence of 192 codes 3 loads, and tile 17 is at \<open>(80, 80)\<close>; a sequence whose 192nd
  code is 12 fails, and so does a sequence of 191 codes.
\<close>

theorem C9_setTiles_witness:
  "\<not> length (replicate 192 (3::int)) < 192
   \<and> \<not> (\<exists>c \<in> set (take 192 (replicate 192 (3::int))). c < 0 \<or> 12 \<le> c)
   \<and> \<not> isl (setTiles (Some (replicate 192 3)))
   \<and> length (projr (setTiles (Some (replicate 192 3)))) = 192
   \<and> projr (setTiles (Some (replicate 192 3))) ! 17 = Tile_ctor 80 80 3
   \<and> (\<exists>c \<in> set (take 192 (replicate 191 0 @ [12::int])). c < 0 \<or> 12 \<le> c)
   \<and> isl (setTiles (Some (replicate 191 0 @ [12])))
   \<and> length (replicate 191 (0::int)) < 192
   \<and> isl (setTiles (Some (replicate 191 0)))"
proof -
  have ok: "\<not> isl (setTiles (Some (replicate 192 3)))"
    using C9_setTiles [of "replicate 192 3"] by simp
  then have "setTiles (Some (replicate 192 3)) = Inr (projr (setTiles (Some (replicate 192 3))))"
    by (simp add: sum.expand)
  with C9_setTiles [of "replicate 192 3"]
  have "length (projr (setTiles (Some (replicate 192 3)))) = 192
        \<and> (\<forall>i < 192. projr (setTiles (Some (replicate 192 3))) ! i
              = Tile_ctor (80 * (int i mod 16)) (80 * (int i div 16)) (replicate 192 3 ! i))"
    by blast
  then have t: "length (projr (setTiles (Some (replicate 192 3)))) = 192"
    and n: "projr (setTiles (Some (replicate 192 3))) ! 17 = Tile_ctor 80 80 3"
    by simp_all
  have bad: "isl (setTiles (Some (replicate 191 0 @ [12])))"
    using C9_setTiles [of "replicate 191 0 @ [12]"] by simp
  have short: "isl (setTiles (Some (replicate 191 0)))"
    using C9_setTiles [of "replicate 191 0"] by simp
  from ok t n bad short show ?thesis by simp
qed

end
